theory Spec2Isabelle
  imports Main "HOL-Library.Word"
begin

unbundle bit_operations_syntax

section \<open>The control table of a Dynamixel servo (servo.go)\<close>

text \<open>
  A shallow embedding of \<^verbatim>\<open>servo.go\<close>. Go's \<^verbatim>\<open>byte\<close> is an 8-bit word, Go's
  \<^verbatim>\<open>int\<close> is modelled as \<open>int\<close> (the functions below compare ints and build them from
  at most two bytes, so no machine overflow can occur), and the fixed array
  \<^verbatim>\<open>[tableSize]byte\<close> is a list of bytes whose indexing is checked, as Go's is.
\<close>

type_synonym byte = "8 word"

definition tableSize :: nat where
  "tableSize = 50"

definition addrStatusReturnLevel :: byte where
  "addrStatusReturnLevel = 0x10"

definition addrTorqueLimit :: byte where
  "addrTorqueLimit = 0x22"

definition maxSpeed :: int where
  "maxSpeed = 1023"

subsection \<open>Register descriptors\<close>

text \<open>
  Modelled from the spec: the struct \<^verbatim>\<open>Register\<close> and the constant \<^verbatim>\<open>ro\<close> are declared
  in another file of the package. The fields are the ones \<^verbatim>\<open>servo.go\<close>
  reads (\<^verbatim>\<open>address\<close>, \<^verbatim>\<open>length\<close>, \<^verbatim>\<open>access\<close>, \<^verbatim>\<open>min\<close>, \<^verbatim>\<open>max\<close>, \<^verbatim>\<open>cacheable\<close>), with the
  types of their uses: the address is passed where a \<^verbatim>\<open>byte\<close> is expected, the length
  where an \<^verbatim>\<open>int\<close> is. The spec's access modes are ReadOnly and ReadWrite.
\<close>

datatype access = ro | rw

record Register =
  address :: byte
  length_r :: int
  access_r :: access
  min_r :: int
  max_r :: int
  cacheable :: bool

text \<open>
  Modelled from the spec: the helpers \<^verbatim>\<open>low\<close> and \<^verbatim>\<open>high\<close> are defined outside
  \<^verbatim>\<open>servo.go\<close>. The spec splits a value into its low and high byte, little-endian:
  \<open>low\<close> is the value modulo 256, \<open>high\<close> the next eight bits.
\<close>

definition low :: "int \<Rightarrow> byte" where
  "low i = word_of_int i"

definition high :: "int \<Rightarrow> byte" where
  "high i = word_of_int (i div 256)"

subsection \<open>Errors and results\<close>

text \<open>
  One constructor for each error value \<^verbatim>\<open>servo.go\<close> builds, and one for the errors that
  come back from the \<^verbatim>\<open>Networker\<close>. A Go function returning \<^verbatim>\<open>(v, error)\<close> or
  \<^verbatim>\<open>error\<close> has three outcomes here: it returns normally, it returns an error, or the
  run-time system panics on an index out of range.
\<close>

datatype error =
    InvalidControlTableSize nat
  | InvalidRegisterLength int
  | ReadWhileLevelZero
  | ByteCountMismatch int nat
  | ReadOnlyRegister
  | ValueTooLow int int
  | ValueTooHigh int int
  | GoalPositionOutOfRange
  | MovingSpeedOutOfRange
  | InvalidLockValue
  | CannotUnlock
  | TorqueLimitOutOfRange
  | InvalidStatusReturnLevel int
  | TransportError string

datatype 'a result = Ok 'a | Err error | Panic

subsection \<open>The Networker\<close>

text \<open>
  The interface \<^verbatim>\<open>Networker\<close> is implemented outside this package's core. A network is
  modelled by the list of calls it has received so far and by its replies, which may
  depend on that history in any way. \<^verbatim>\<open>Log\<close> sends nothing to the device; the prefix
  \<^verbatim>\<open>servo[<ident>].\<close> that \<^verbatim>\<open>logMethod\<close> puts before the format is recorded as the ident.
\<close>

datatype logArg = IntArg int | BoolArg bool

datatype call =
    ReadDataCall byte byte int
  | WriteDataCall byte bool "byte list"
  | LogCall byte string "logArg list"

record Networker =
  calls :: "call list"
  readReply :: "call list \<Rightarrow> byte \<Rightarrow> byte \<Rightarrow> int \<Rightarrow> string + byte list"
  writeReply :: "call list \<Rightarrow> byte \<Rightarrow> bool \<Rightarrow> byte list \<Rightarrow> string option"

definition ReadData :: "Networker \<Rightarrow> byte \<Rightarrow> byte \<Rightarrow> int \<Rightarrow> (error + byte list) \<times> Networker" where
  "ReadData net ident addr n =
     ((case readReply net (calls net) ident addr n of
         Inl msg \<Rightarrow> Inl (TransportError msg)
       | Inr b \<Rightarrow> Inr b),
      net\<lparr>calls := calls net @ [ReadDataCall ident addr n]\<rparr>)"

definition WriteData :: "Networker \<Rightarrow> byte \<Rightarrow> bool \<Rightarrow> byte list \<Rightarrow> error option \<times> Networker" where
  "WriteData net ident expectAck params =
     (map_option TransportError (writeReply net (calls net) ident expectAck params),
      net\<lparr>calls := calls net @ [WriteDataCall ident expectAck params]\<rparr>)"

definition Log :: "Networker \<Rightarrow> byte \<Rightarrow> string \<Rightarrow> logArg list \<Rightarrow> Networker" where
  "Log net ident fmt args = net\<lparr>calls := calls net @ [LogCall ident fmt args]\<rparr>"

subsection \<open>float64\<close>

text \<open>
  \<^verbatim>\<open>zeroAngle\<close> and the argument of \<^verbatim>\<open>normalizeAngle\<close> are IEEE 754 binary64 numbers.
  \<open>Finite s m e\<close> stands for \<open>(-1)\<^sup>s \<sqdot> m \<sqdot> 2\<^sup>e\<close>; the finite binary64 numbers are those
  with \<open>m < 2\<^sup>5\<^sup>3\<close> and \<open>-1074 \<le> e \<le> 971\<close> (several triples may denote one number, and
  comparisons go through the number denoted). Addition computes the exact sum and rounds
  it once to 53 bits, ties to even, as Go's \<^verbatim>\<open>+\<close> and \<^verbatim>\<open>-\<close> on \<^verbatim>\<open>float64\<close> do.
\<close>

datatype float64 = Finite bool nat int | Infinity bool | NaN

definition isFloat64 :: "float64 \<Rightarrow> bool" where
  "isFloat64 x = (case x of Finite s m e \<Rightarrow> m < 2 ^ 53 \<and> -1074 \<le> e \<and> e \<le> 971 | _ \<Rightarrow> True)"

fun bits :: "nat \<Rightarrow> nat" where
  "bits n = (if n = 0 then 0 else Suc (bits (n div 2)))"

declare bits.simps [simp del]

definition signedMant :: "bool \<Rightarrow> nat \<Rightarrow> int" where
  "signedMant s m = (if s then - int m else int m)"

definition roundFloat :: "bool \<Rightarrow> nat \<Rightarrow> int \<Rightarrow> float64" where
  "roundFloat s m e =
     (let k = bits m - 53;
          q = m div 2 ^ k;
          r = m mod 2 ^ k;
          q' = (if 2 * r > 2 ^ k \<or> (2 * r = 2 ^ k \<and> odd q) then q + 1 else q);
          m' = (if q' = 2 ^ 53 then 2 ^ 52 else q');
          e' = (if q' = 2 ^ 53 then e + int k + 1 else e + int k)
      in if int (bits m') + e' > 1024 then Infinity s else Finite s m' e')"

fun fadd :: "float64 \<Rightarrow> float64 \<Rightarrow> float64" where
  "fadd NaN _ = NaN"
| "fadd _ NaN = NaN"
| "fadd (Infinity s) (Infinity t) = (if s = t then Infinity s else NaN)"
| "fadd (Infinity s) (Finite _ _ _) = Infinity s"
| "fadd (Finite _ _ _) (Infinity t) = Infinity t"
| "fadd (Finite s m e) (Finite t n f) =
     (let g = min e f;
          x = signedMant s m * 2 ^ nat (e - g) + signedMant t n * 2 ^ nat (f - g)
      in if x = 0 then Finite (s \<and> t) 0 g else roundFloat (x < 0) (nat \<bar>x\<bar>) g)"

fun fneg :: "float64 \<Rightarrow> float64" where
  "fneg (Finite s m e) = Finite (\<not> s) m e"
| "fneg (Infinity s) = Infinity (\<not> s)"
| "fneg NaN = NaN"

definition fsub :: "float64 \<Rightarrow> float64 \<Rightarrow> float64" where
  "fsub x y = fadd x (fneg y)"

fun fless :: "float64 \<Rightarrow> float64 \<Rightarrow> bool" where
  "fless NaN _ = False"
| "fless _ NaN = False"
| "fless (Infinity s) (Infinity t) = (s \<and> \<not> t)"
| "fless (Infinity s) (Finite _ _ _) = s"
| "fless (Finite _ _ _) (Infinity t) = (\<not> t)"
| "fless (Finite s m e) (Finite t n f) =
     (let g = min e f
      in signedMant s m * 2 ^ nat (e - g) < signedMant t n * 2 ^ nat (f - g))"

fun fle :: "float64 \<Rightarrow> float64 \<Rightarrow> bool" where
  "fle NaN _ = False"
| "fle _ NaN = False"
| "fle (Infinity s) (Infinity t) = (s \<or> \<not> t)"
| "fle (Infinity s) (Finite _ _ _) = s"
| "fle (Finite _ _ _) (Infinity t) = (\<not> t)"
| "fle (Finite s m e) (Finite t n f) =
     (let g = min e f
      in signedMant s m * 2 ^ nat (e - g) \<le> signedMant t n * 2 ^ nat (f - g))"

text \<open>An integer constant of the source, as a \<^verbatim>\<open>float64\<close> (exact below \<open>2\<^sup>5\<^sup>3\<close>).\<close>

definition floatConst :: "int \<Rightarrow> float64" where
  "floatConst i = Finite (i < 0) (nat \<bar>i\<bar>) 0"

subsection \<open>normalizeAngle\<close>

text \<open>
  The recursion need not return, so the result is an option: \<open>None\<close> stands for a call
  that never returns (in Go, one that ends the program with a stack overflow).
\<close>

partial_function (option) normalizeAngle :: "float64 \<Rightarrow> float64 option" where
  "normalizeAngle d =
     (if fless (floatConst 180) d then normalizeAngle (fsub d (floatConst 360))
      else if fless d (floatConst (-180)) then normalizeAngle (fadd d (floatConst 360))
      else Some d)"

subsection \<open>The servo\<close>

record DynamixelServo =
  Network :: Networker
  Ident :: byte
  zeroAngle :: float64
  cache :: "byte list"
  statusReturnLevel :: int

text \<open>Indexing the cache: Go panics when the index is not below the array's length.\<close>

definition cacheAt :: "byte list \<Rightarrow> byte \<Rightarrow> byte option" where
  "cacheAt c a = (if unat a < length c then Some (c ! unat a) else None)"

definition cachePut :: "byte list \<Rightarrow> byte \<Rightarrow> byte \<Rightarrow> byte list option" where
  "cachePut c a v = (if unat a < length c then Some (c[unat a := v]) else None)"

text \<open>The copy loop of \<^verbatim>\<open>updateCache\<close>, run only on a slice of \<^verbatim>\<open>tableSize\<close> bytes.\<close>

function copyLoop :: "nat \<Rightarrow> byte list \<Rightarrow> byte list \<Rightarrow> byte list" where
  "copyLoop i b c = (if i < tableSize then copyLoop (Suc i) b (c[i := b ! i]) else c)"
  by pat_completeness auto
termination
  by (relation "measure (\<lambda>(i, b, c). tableSize - i)") auto

declare copyLoop.simps [simp del]

definition updateCache :: "DynamixelServo \<Rightarrow> unit result \<times> DynamixelServo" where
  "updateCache servo =
     (case ReadData (Network servo) (Ident servo) 0 (int tableSize) of
        (Inl err, net) \<Rightarrow> (Err err, servo\<lparr>Network := net\<rparr>)
      | (Inr b, net) \<Rightarrow>
          if length b \<noteq> tableSize
          then (Err (InvalidControlTableSize (length b)), servo\<lparr>Network := net\<rparr>)
          else (Ok (), servo\<lparr>Network := net, cache := copyLoop 0 b (cache servo)\<rparr>))"

definition NewServo :: "Networker \<Rightarrow> byte \<Rightarrow> DynamixelServo" where
  "NewServo network ident =
     snd (updateCache \<lparr>Network = network, Ident = ident, zeroAngle = floatConst 150,
                       cache = replicate tableSize 0, statusReturnLevel = 2\<rparr>)"

subsection \<open>Register access\<close>

definition getRegister :: "Register \<Rightarrow> DynamixelServo \<Rightarrow> int result \<times> DynamixelServo" where
  "getRegister reg servo =
     (if length_r reg \<noteq> 1 \<and> length_r reg \<noteq> 2
      then (Err (InvalidRegisterLength (length_r reg)), servo)
      else if cacheable reg then
        (case cacheAt (cache servo) (address reg) of
           None \<Rightarrow> (Panic, servo)
         | Some b0 \<Rightarrow>
             if length_r reg = 2 then
               (case cacheAt (cache servo) (address reg + 1) of
                  None \<Rightarrow> (Panic, servo)
                | Some b1 \<Rightarrow> (Ok (uint b0 OR push_bit 8 (uint b1)), servo))
             else (Ok (uint b0), servo))
      else if statusReturnLevel servo = 0 then (Err ReadWhileLevelZero, servo)
      else
        (case ReadData (Network servo) (Ident servo) (address reg) (length_r reg) of
           (Inl err, net) \<Rightarrow> (Err err, servo\<lparr>Network := net\<rparr>)
         | (Inr b, net) \<Rightarrow>
             if length b = 1 then
               (case cachePut (cache servo) (address reg) (b ! 0) of
                  None \<Rightarrow> (Panic, servo\<lparr>Network := net\<rparr>)
                | Some c \<Rightarrow> (Ok (uint (b ! 0)), servo\<lparr>Network := net, cache := c\<rparr>))
             else if length b = 2 then
               (case cachePut (cache servo) (address reg) (b ! 0) of
                  None \<Rightarrow> (Panic, servo\<lparr>Network := net\<rparr>)
                | Some c \<Rightarrow>
                    (case cachePut c (address reg + 1) (b ! 1) of
                       None \<Rightarrow> (Panic, servo\<lparr>Network := net, cache := c\<rparr>)
                     | Some c' \<Rightarrow>
                         (Ok (uint (b ! 0) OR push_bit 8 (uint (b ! 1))),
                          servo\<lparr>Network := net, cache := c'\<rparr>)))
             else (Err (ByteCountMismatch (length_r reg) (length b)), servo\<lparr>Network := net\<rparr>)))"

definition writeData :: "byte list \<Rightarrow> DynamixelServo \<Rightarrow> error option \<times> DynamixelServo" where
  "writeData params servo =
     (case WriteData (Network servo) (Ident servo) (statusReturnLevel servo = 2) params of
        (err, net) \<Rightarrow> (err, servo\<lparr>Network := net\<rparr>))"

text \<open>\<^verbatim>\<open>setRegister\<close> calls \<^verbatim>\<open>writeData\<close> as a statement: what it returns is dropped.\<close>

definition setRegister :: "Register \<Rightarrow> int \<Rightarrow> DynamixelServo \<Rightarrow> unit result \<times> DynamixelServo" where
  "setRegister reg v servo =
     (if access_r reg = ro then (Err ReadOnlyRegister, servo)
      else if v < min_r reg then (Err (ValueTooLow v (min_r reg)), servo)
      else if v > max_r reg then (Err (ValueTooHigh v (max_r reg)), servo)
      else if length_r reg = 1 then
        (case writeData [address reg, low v] servo of
           (_, servo1) \<Rightarrow>
             (case cachePut (cache servo1) (address reg) (low v) of
                None \<Rightarrow> (Panic, servo1)
              | Some c \<Rightarrow> (Ok (), servo1\<lparr>cache := c\<rparr>)))
      else if length_r reg = 2 then
        (case writeData [address reg, low v, high v] servo of
           (_, servo1) \<Rightarrow>
             (case cachePut (cache servo1) (address reg) (low v) of
                None \<Rightarrow> (Panic, servo1)
              | Some c \<Rightarrow>
                  (case cachePut c (address reg + 1) (high v) of
                     None \<Rightarrow> (Panic, servo1\<lparr>cache := c\<rparr>)
                   | Some c' \<Rightarrow> (Ok (), servo1\<lparr>cache := c'\<rparr>))))
      else (Err (InvalidRegisterLength (length_r reg)), servo))"

definition logMethod :: "string \<Rightarrow> logArg list \<Rightarrow> DynamixelServo \<Rightarrow> DynamixelServo" where
  "logMethod fmt args servo = servo\<lparr>Network := Log (Network servo) (Ident servo) fmt args\<rparr>"

subsection \<open>Named setters\<close>

text \<open>
  The table \<^verbatim>\<open>registers\<close> is declared outside \<^verbatim>\<open>servo.go\<close>; the setters take it as a
  parameter, a descriptor for each name they look up.
\<close>

datatype regName = torqueEnable | led | goalPosition | movingSpeed | lock

text \<open>
  Modelled from the spec: the helper \<^verbatim>\<open>btoi\<close> is defined outside \<^verbatim>\<open>servo.go\<close>. It is the
  coercion of a boolean to an integer, the inverse of "nonzero is true": 1 for true, 0
  for false.
\<close>

definition btoi :: "bool \<Rightarrow> int" where
  "btoi b = (if b then 1 else 0)"

definition SetTorqueEnable ::
  "(regName \<Rightarrow> Register) \<Rightarrow> bool \<Rightarrow> DynamixelServo \<Rightarrow> unit result \<times> DynamixelServo" where
  "SetTorqueEnable registers state servo =
     setRegister (registers torqueEnable) (btoi state)
       (logMethod ''SetTorqueEnable(%t)'' [BoolArg state] servo)"

definition SetLED ::
  "(regName \<Rightarrow> Register) \<Rightarrow> bool \<Rightarrow> DynamixelServo \<Rightarrow> unit result \<times> DynamixelServo" where
  "SetLED registers state servo = setRegister (registers led) (btoi state) servo"

definition SetGoalPosition ::
  "(regName \<Rightarrow> Register) \<Rightarrow> int \<Rightarrow> DynamixelServo \<Rightarrow> unit result \<times> DynamixelServo" where
  "SetGoalPosition registers pos servo =
     (let reg = registers goalPosition
      in if pos < min_r reg \<or> pos > max_r reg then (Err GoalPositionOutOfRange, servo)
         else setRegister reg pos servo)"

definition SetMovingSpeed ::
  "(regName \<Rightarrow> Register) \<Rightarrow> int \<Rightarrow> DynamixelServo \<Rightarrow> unit result \<times> DynamixelServo" where
  "SetMovingSpeed registers speed servo =
     (if speed < 0 \<or> speed > maxSpeed then (Err MovingSpeedOutOfRange, servo)
      else setRegister (registers movingSpeed) speed servo)"

definition SetLock ::
  "(regName \<Rightarrow> Register) \<Rightarrow> int \<Rightarrow> DynamixelServo \<Rightarrow> unit result \<times> DynamixelServo" where
  "SetLock registers isLocked servo =
     (if isLocked > 1 \<or> isLocked < 0 then (Err InvalidLockValue, servo)
      else
        (let reg = registers lock
         in if isLocked = 0 then
              (case cacheAt (cache servo) (address reg) of
                 None \<Rightarrow> (Panic, servo)
               | Some b \<Rightarrow>
                   if b = 1 then (Err CannotUnlock, servo)
                   else setRegister reg isLocked servo)
            else setRegister reg isLocked servo))"

subsection \<open>Low-level interface\<close>

definition SetTorqueLimit :: "int \<Rightarrow> DynamixelServo \<Rightarrow> unit result \<times> DynamixelServo" where
  "SetTorqueLimit limit servo =
     (let servo1 = logMethod ''SetTorqueLimit(%d)'' [IntArg limit] servo
      in if limit < 0 \<or> limit > 1023 then (Err TorqueLimitOutOfRange, servo1)
         else
           (case writeData [addrTorqueLimit, low limit, high limit] servo1 of
              (None, servo2) \<Rightarrow> (Ok (), servo2)
            | (Some err, servo2) \<Rightarrow> (Err err, servo2)))"

definition SetStatusReturnLevel :: "int \<Rightarrow> DynamixelServo \<Rightarrow> unit result \<times> DynamixelServo" where
  "SetStatusReturnLevel v servo =
     (let servo1 = logMethod ''SetStatusReturnLevel(%d)'' [IntArg v] servo
      in if v < 0 \<or> v > 2 then (Err (InvalidStatusReturnLevel v), servo1)
         else
           (case WriteData (Network servo1) (Ident servo1) (v = 2) [addrStatusReturnLevel, low v] of
              (Some err, net) \<Rightarrow> (Err err, servo1\<lparr>Network := net\<rparr>)
            | (None, net) \<Rightarrow> (Ok (), servo1\<lparr>Network := net, statusReturnLevel := v\<rparr>)))"

subsection \<open>Example networks, descriptors and servos\<close>

text \<open>
  Concrete values on which the properties below are evaluated: a network that answers
  every read with the number of zero bytes asked for and accepts every write, one whose
  every request times out, and one that answers every read with the single byte 7.
\<close>

definition okNet :: Networker where
  "okNet = \<lparr>calls = [], readReply = (\<lambda>_ _ _ n. Inr (replicate (nat n) 0)),
            writeReply = (\<lambda>_ _ _ _. None)\<rparr>"

definition failNet :: Networker where
  "failNet = \<lparr>calls = [], readReply = (\<lambda>_ _ _ _. Inl ''timeout''),
              writeReply = (\<lambda>_ _ _ _. Some ''timeout'')\<rparr>"

definition shortNet :: Networker where
  "shortNet = \<lparr>calls = [], readReply = (\<lambda>_ _ _ _. Inr [7]),
               writeReply = (\<lambda>_ _ _ _. None)\<rparr>"

definition regLed :: Register where
  "regLed = \<lparr>address = 0x19, length_r = 1, access_r = rw, min_r = 0, max_r = 1,
             cacheable = True\<rparr>"

definition regGoalPosition :: Register where
  "regGoalPosition = \<lparr>address = 0x1E, length_r = 2, access_r = rw, min_r = 0, max_r = 1023,
                      cacheable = True\<rparr>"

definition regPresentPosition :: Register where
  "regPresentPosition = \<lparr>address = 0x24, length_r = 2, access_r = ro, min_r = 0,
                         max_r = 1023, cacheable = False\<rparr>"

definition regLastByte :: Register where
  "regLastByte = \<lparr>address = 49, length_r = 2, access_r = rw, min_r = 0, max_r = 1023,
                  cacheable = True\<rparr>"

definition freshServo :: "Networker \<Rightarrow> DynamixelServo" where
  "freshServo net = \<lparr>Network = net, Ident = 1, zeroAngle = floatConst 150,
                     cache = replicate tableSize 0, statusReturnLevel = 2\<rparr>"

text \<open>
  The \<^verbatim>\<open>float64\<close> \<open>10\<^sup>1\<^sup>9 = 4882812500000000 \<sqdot> 2\<^sup>1\<^sup>1\<close>: neighbouring numbers of this size
  are 2048 apart.
\<close>

definition hugeAngle :: float64 where
  "hugeAngle = Finite False 4882812500000000 11"

subsection \<open>What it means for the cache to hold a written value\<close>

text \<open>
  The cache bytes of a register hold the value \<open>v\<close>: the byte at the register's address
  is the low byte of \<open>v\<close> and, for a register of two bytes, the next byte is the high one.
\<close>

definition cacheHolds :: "Register \<Rightarrow> int \<Rightarrow> DynamixelServo \<Rightarrow> bool" where
  "cacheHolds reg v servo =
     (cacheAt (cache servo) (address reg) = Some (low v) \<and>
      (length_r reg = 2 \<longrightarrow> cacheAt (cache servo) (address reg + 1) = Some (high v)))"

section \<open>Properties\<close>

subsection \<open>Bytes and the cache\<close>

lemma or_shift: "uint (a::byte) OR push_bit 8 (uint (b::byte)) = uint a + 256 * uint b"
proof -
  have "uint a + push_bit 8 (uint b) = uint a OR push_bit 8 (uint b)"
    by (rule disjunctive_add) (auto simp: bit_push_bit_iff bit_uint_iff dest: bit_imp_le_length)
  thus ?thesis by (simp add: push_bit_eq_mult)
qed

lemma unat_succ: "unat (a::byte) + 1 < 256 \<Longrightarrow> unat (a + 1) = unat a + 1"
  by (simp add: unat_word_ariths)

lemma succ_neq: "unat ((a::byte) + 1) \<noteq> unat a"
  by (simp add: word_unat_eq_iff [symmetric])

text \<open>The two bytes that \<open>low\<close> and \<open>high\<close> give decode, low byte first, to the value.\<close>

lemma low_high_decode: "0 \<le> v \<Longrightarrow> v < 65536 \<Longrightarrow> uint (low v) + 256 * uint (high v) = v"
  by (simp add: low_def high_def uint_word_of_int)

text \<open>The copy loop of \<^verbatim>\<open>updateCache\<close> replaces the whole cache by the bytes read.\<close>

lemma length_copyLoop: "length (copyLoop i b c) = length c"
  by (induction i b c rule: copyLoop.induct) (subst copyLoop.simps, simp)

lemma copyLoop_eq:
  "length b = tableSize \<Longrightarrow> length c = tableSize \<Longrightarrow> i \<le> tableSize \<Longrightarrow>
   copyLoop i b c = take i c @ drop i b"
proof (induction i b c rule: copyLoop.induct)
  case (1 i b c)
  show ?case
  proof (cases "i < tableSize")
    case True
    have "copyLoop i b c = copyLoop (Suc i) b (c[i := b ! i])"
      using True by (subst copyLoop.simps) simp
    also have "\<dots> = take (Suc i) (c[i := b ! i]) @ drop (Suc i) b"
      using "1.IH" [OF True] "1.prems" True by simp
    also have "\<dots> = take i c @ drop i b"
      using "1.prems" True
      by (simp add: take_Suc_conv_app_nth Cons_nth_drop_Suc)
    finally show ?thesis .
  next
    case False
    with "1.prems" show ?thesis by (subst copyLoop.simps) simp
  qed
qed

lemma NewServo_populates_cache:
  "readReply net (calls net) ident 0 (int tableSize) = Inr b \<Longrightarrow> length b = tableSize \<Longrightarrow>
   cache (NewServo net ident) = b"
  by (simp add: NewServo_def updateCache_def ReadData_def copyLoop_eq)

text \<open>The cache keeps the length of the control table.\<close>

lemma length_cache_NewServo: "length (cache (NewServo net ident)) = tableSize"
  by (auto simp: NewServo_def updateCache_def ReadData_def length_copyLoop
      split: sum.splits prod.splits)

lemma length_cache_setRegister:
  "length (cache (snd (setRegister reg v servo))) = length (cache servo)"
  by (auto simp: setRegister_def writeData_def WriteData_def cachePut_def
      split: prod.splits option.splits if_splits)

lemma length_cache_getRegister:
  "length (cache (snd (getRegister reg servo))) = length (cache servo)"
  by (auto simp: getRegister_def ReadData_def cachePut_def cacheAt_def
      split: prod.splits option.splits if_splits sum.splits)

subsection \<open>Writing a register\<close>

lemma setRegister_Ok_cache:
  "fst (setRegister reg v servo) = Ok () \<Longrightarrow> cacheHolds reg v (snd (setRegister reg v servo))"
  by (auto simp: setRegister_def writeData_def WriteData_def cachePut_def cacheAt_def
        cacheHolds_def succ_neq
      split: if_splits prod.splits option.splits)

text \<open>Whatever the network answers, \<^verbatim>\<open>setRegister\<close> never returns the network's error.\<close>

lemma setRegister_no_transport_error:
  "fst (setRegister reg v servo) \<noteq> Err (TransportError msg)"
  by (auto simp: setRegister_def writeData_def WriteData_def
      split: prod.splits option.splits if_splits)

text \<open>
  C1. The claim: when the transport write fails, \<^verbatim>\<open>setRegister\<close> propagates the error and
  leaves the register's cache bytes unchanged. The code does neither. On a network whose
  every write times out, writing 1 to the one-byte register at address 0x19 (writable,
  range 0 to 1): \<^verbatim>\<open>writeData\<close> returns the error, \<^verbatim>\<open>setRegister\<close> returns without one,
  and the cache byte goes from 0 to 1.
\<close>

theorem setRegister_drops_write_error:
  "fst (writeData [address regLed, low 1] (freshServo failNet))
     = Some (TransportError ''timeout'') \<and>
   fst (setRegister regLed 1 (freshServo failNet)) = Ok () \<and>
   cacheAt (cache (freshServo failNet)) (address regLed) = Some 0 \<and>
   cacheAt (cache (snd (setRegister regLed 1 (freshServo failNet)))) (address regLed) = Some 1"
  by (simp add: setRegister_def writeData_def WriteData_def regLed_def freshServo_def
        failNet_def cachePut_def cacheAt_def tableSize_def low_def)

text \<open>
  C2, as the claim states it, fails for \<^verbatim>\<open>SetTorqueLimit\<close>: after it has written 512 with
  success, the cache bytes of the torque limit (addresses 0x22 and 0x23) are still 0 and
  0, while the bytes of 512 are 0 and 2.
\<close>

theorem SetTorqueLimit_leaves_cache_stale:
  "fst (SetTorqueLimit 512 (freshServo okNet)) = Ok () \<and>
   cacheAt (cache (snd (SetTorqueLimit 512 (freshServo okNet)))) addrTorqueLimit = Some 0 \<and>
   cacheAt (cache (snd (SetTorqueLimit 512 (freshServo okNet)))) (addrTorqueLimit + 1) = Some 0 \<and>
   low 512 = 0 \<and> high 512 = 2"
  by (simp add: SetTorqueLimit_def writeData_def WriteData_def logMethod_def Log_def Let_def
        freshServo_def okNet_def cacheAt_def tableSize_def addrTorqueLimit_def low_def high_def)

text \<open>
  C2, amended. Whenever \<^verbatim>\<open>setRegister\<close>, or a setter that delegates to it
  (\<^verbatim>\<open>SetTorqueEnable\<close>, \<^verbatim>\<open>SetLED\<close>, \<^verbatim>\<open>SetGoalPosition\<close>, \<^verbatim>\<open>SetMovingSpeed\<close>, \<^verbatim>\<open>SetLock\<close>),
  returns without an error, the cache bytes of that register hold the written value:
  the low byte at the register's address and, for width 2, the high byte after it.
  \<^verbatim>\<open>SetTorqueLimit\<close> writes through the transport only and leaves the cache as it was.
\<close>

theorem set_without_error_patches_cache:
  "(fst (setRegister reg v servo) = Ok () \<longrightarrow>
      cacheHolds reg v (snd (setRegister reg v servo))) \<and>
   (fst (SetTorqueEnable registers state servo) = Ok () \<longrightarrow>
      cacheHolds (registers torqueEnable) (btoi state)
        (snd (SetTorqueEnable registers state servo))) \<and>
   (fst (SetLED registers state servo) = Ok () \<longrightarrow>
      cacheHolds (registers led) (btoi state) (snd (SetLED registers state servo))) \<and>
   (fst (SetGoalPosition registers pos servo) = Ok () \<longrightarrow>
      cacheHolds (registers goalPosition) pos (snd (SetGoalPosition registers pos servo))) \<and>
   (fst (SetMovingSpeed registers speed servo) = Ok () \<longrightarrow>
      cacheHolds (registers movingSpeed) speed (snd (SetMovingSpeed registers speed servo))) \<and>
   (fst (SetLock registers isLocked servo) = Ok () \<longrightarrow>
      cacheHolds (registers lock) isLocked (snd (SetLock registers isLocked servo))) \<and>
   cache (snd (SetTorqueLimit limit servo)) = cache servo"
proof -
  have enable: "fst (SetTorqueEnable registers state servo) = Ok () \<longrightarrow>
      cacheHolds (registers torqueEnable) (btoi state)
        (snd (SetTorqueEnable registers state servo))"
    by (simp add: SetTorqueEnable_def setRegister_Ok_cache)
  have led: "fst (SetLED registers state servo) = Ok () \<longrightarrow>
      cacheHolds (registers led) (btoi state) (snd (SetLED registers state servo))"
    by (simp add: SetLED_def setRegister_Ok_cache)
  have goal: "fst (SetGoalPosition registers pos servo) = Ok () \<longrightarrow>
      cacheHolds (registers goalPosition) pos (snd (SetGoalPosition registers pos servo))"
    by (simp add: SetGoalPosition_def Let_def setRegister_Ok_cache)
  have speed: "fst (SetMovingSpeed registers speed servo) = Ok () \<longrightarrow>
      cacheHolds (registers movingSpeed) speed (snd (SetMovingSpeed registers speed servo))"
    by (simp add: SetMovingSpeed_def setRegister_Ok_cache)
  have lock: "fst (SetLock registers isLocked servo) = Ok () \<longrightarrow>
      cacheHolds (registers lock) isLocked (snd (SetLock registers isLocked servo))"
    by (simp add: SetLock_def Let_def setRegister_Ok_cache split: option.splits)
  have torque: "cache (snd (SetTorqueLimit limit servo)) = cache servo"
    by (auto simp: SetTorqueLimit_def writeData_def WriteData_def logMethod_def Let_def
        split: prod.splits option.splits)
  from enable led goal speed lock torque show ?thesis
    by (simp add: setRegister_Ok_cache)
qed

theorem set_without_error_patches_cache_witness:
  "fst (setRegister regGoalPosition 1023 (freshServo okNet)) = Ok () \<and>
   cacheAt (cache (snd (setRegister regGoalPosition 1023 (freshServo okNet)))) 0x1E = Some 0xFF \<and>
   cacheAt (cache (snd (setRegister regGoalPosition 1023 (freshServo okNet)))) 0x1F = Some 0x03 \<and>
   fst (SetLED (\<lambda>_. regLed) True (freshServo okNet)) = Ok () \<and>
   cacheAt (cache (snd (SetLED (\<lambda>_. regLed) True (freshServo okNet)))) 0x19 = Some 1 \<and>
   cache (snd (SetTorqueLimit 512 (freshServo okNet))) = replicate tableSize 0"
proof -
  have ok: "fst (setRegister regGoalPosition 1023 (freshServo okNet)) = Ok ()"
    by (simp add: setRegister_def writeData_def WriteData_def regGoalPosition_def
          freshServo_def okNet_def cachePut_def tableSize_def)
  have ok_led: "fst (SetLED (\<lambda>_. regLed) True (freshServo okNet)) = Ok ()"
    by (simp add: SetLED_def setRegister_def writeData_def WriteData_def regLed_def btoi_def
          freshServo_def okNet_def cachePut_def tableSize_def)
  show ?thesis
    using ok ok_led
      set_without_error_patches_cache
        [of regGoalPosition 1023 "freshServo okNet" "\<lambda>_. regLed" True 0 0 0 512]
    by (simp add: cacheHolds_def regGoalPosition_def regLed_def btoi_def low_def high_def
          freshServo_def)
qed

subsection \<open>Validation before any transport call\<close>

text \<open>
  C8. For a writable descriptor and a value below \<open>min\<close> or above \<open>max\<close>, \<^verbatim>\<open>setRegister\<close>
  fails with the value-out-of-range error (too low, or too high), the network receives no
  call and the cache is unchanged; for a read-only descriptor it fails with the
  read-only-register error, whatever the value, again before any call to the network.
\<close>

theorem setRegister_rejects_before_transport:
  "(access_r reg \<noteq> ro \<and> v < min_r reg \<longrightarrow>
      setRegister reg v servo = (Err (ValueTooLow v (min_r reg)), servo)) \<and>
   (access_r reg \<noteq> ro \<and> \<not> v < min_r reg \<and> v > max_r reg \<longrightarrow>
      setRegister reg v servo = (Err (ValueTooHigh v (max_r reg)), servo)) \<and>
   (access_r reg = ro \<longrightarrow> setRegister reg v servo = (Err ReadOnlyRegister, servo)) \<and>
   ((access_r reg = ro \<or> v < min_r reg \<or> v > max_r reg) \<longrightarrow>
      (\<exists>e. fst (setRegister reg v servo) = Err e) \<and>
      calls (Network (snd (setRegister reg v servo))) = calls (Network servo) \<and>
      cache (snd (setRegister reg v servo)) = cache servo)"
  by (simp add: setRegister_def)

theorem setRegister_rejects_before_transport_witness:
  "setRegister regGoalPosition (-1) (freshServo okNet)
     = (Err (ValueTooLow (-1) 0), freshServo okNet) \<and>
   setRegister regGoalPosition 1024 (freshServo okNet)
     = (Err (ValueTooHigh 1024 1023), freshServo okNet) \<and>
   setRegister regPresentPosition 512 (freshServo okNet)
     = (Err ReadOnlyRegister, freshServo okNet)"
  using setRegister_rejects_before_transport [of regGoalPosition "-1" "freshServo okNet"]
        setRegister_rejects_before_transport [of regGoalPosition 1024 "freshServo okNet"]
        setRegister_rejects_before_transport [of regPresentPosition 512 "freshServo okNet"]
  by (simp add: regGoalPosition_def regPresentPosition_def)

subsection \<open>Reading a register\<close>

text \<open>
  C7. For a descriptor that is not cacheable, of width 1 or 2: when the status return
  level is 0, \<^verbatim>\<open>getRegister\<close> fails with the error of a read at level zero and the servo,
  its network included, is as before (no call was made); when the level is greater than
  0, the network receives exactly one more call, a read of \<open>width\<close> bytes at the
  descriptor's address.
\<close>

theorem getRegister_live_read:
  "\<not> cacheable reg \<Longrightarrow> length_r reg = 1 \<or> length_r reg = 2 \<Longrightarrow>
   (statusReturnLevel servo = 0 \<longrightarrow>
      getRegister reg servo = (Err ReadWhileLevelZero, servo)) \<and>
   (statusReturnLevel servo > 0 \<longrightarrow>
      calls (Network (snd (getRegister reg servo)))
        = calls (Network servo) @ [ReadDataCall (Ident servo) (address reg) (length_r reg)])"
  by (auto simp: getRegister_def ReadData_def split: sum.splits option.splits prod.splits)

theorem getRegister_live_read_witness:
  "getRegister regPresentPosition ((freshServo okNet)\<lparr>statusReturnLevel := 0\<rparr>)
     = (Err ReadWhileLevelZero, (freshServo okNet)\<lparr>statusReturnLevel := 0\<rparr>) \<and>
   calls (Network (snd (getRegister regPresentPosition (freshServo okNet))))
     = [ReadDataCall 1 0x24 2]"
  using getRegister_live_read [of regPresentPosition "(freshServo okNet)\<lparr>statusReturnLevel := 0\<rparr>"]
        getRegister_live_read [of regPresentPosition "freshServo okNet"]
  by (simp add: regPresentPosition_def freshServo_def okNet_def)

text \<open>
  C3. The claim: a live read that returns a number of bytes other than the descriptor's
  width fails with the byte-count error and leaves the cache as it was. The code looks at
  the number of bytes returned only, not at the width. For the two-byte register at
  address 0x24 (not cacheable) and a network that answers the read with the single byte
  7, at status return level 2: \<^verbatim>\<open>getRegister\<close> returns 7 without an error, and the cache
  byte at 0x24 goes from 0 to 7.
\<close>

theorem getRegister_accepts_short_read:
  "length_r regPresentPosition = 2 \<and>
   readReply shortNet (calls shortNet) 1 0x24 2 = Inr [7] \<and>
   fst (getRegister regPresentPosition (freshServo shortNet)) = Ok 7 \<and>
   cacheAt (cache (freshServo shortNet)) (address regPresentPosition) = Some 0 \<and>
   cacheAt (cache (snd (getRegister regPresentPosition (freshServo shortNet))))
     (address regPresentPosition) = Some 7"
  by (simp add: getRegister_def ReadData_def regPresentPosition_def freshServo_def shortNet_def
        cachePut_def cacheAt_def tableSize_def)

text \<open>
  C9, as the claim states it, fails for a cacheable descriptor of width 2 at address 49,
  the last byte of the table: reading the byte after it is an index out of range, and
  \<^verbatim>\<open>getRegister\<close> panics instead of returning.
\<close>

theorem getRegister_cached_panics_at_table_end:
  "cacheable regLastByte \<and> length_r regLastByte = 2 \<and>
   getRegister regLastByte (freshServo okNet) = (Panic, freshServo okNet)"
  by (simp add: getRegister_def regLastByte_def freshServo_def cacheAt_def tableSize_def)

text \<open>
  C9, amended. For a cacheable descriptor of width 1 or 2 whose bytes lie inside the
  table (address + width \<le> 50), \<^verbatim>\<open>getRegister\<close> returns, without an error and with the
  servo and its network unchanged (no call is made), the unsigned little-endian value of
  its cache bytes: the byte at the address, plus 256 times the next byte when the
  width is 2.
\<close>

theorem getRegister_cached:
  "cacheable reg \<Longrightarrow> length_r reg = 1 \<or> length_r reg = 2 \<Longrightarrow>
   length (cache servo) = tableSize \<Longrightarrow>
   unat (address reg) + nat (length_r reg) \<le> tableSize \<Longrightarrow>
   getRegister reg servo =
     (Ok (uint (cache servo ! unat (address reg)) +
          (if length_r reg = 2 then 256 * uint (cache servo ! (unat (address reg) + 1)) else 0)),
      servo)"
  by (auto simp: getRegister_def cacheAt_def tableSize_def or_shift unat_succ)

theorem getRegister_cached_witness:
  "getRegister regGoalPosition
     ((freshServo failNet)\<lparr>cache := (replicate tableSize 0)[30 := 0xFF, 31 := 0x03]\<rparr>)
   = (Ok 1023, (freshServo failNet)\<lparr>cache := (replicate tableSize 0)[30 := 0xFF, 31 := 0x03]\<rparr>)"
  using getRegister_cached
    [of regGoalPosition
        "(freshServo failNet)\<lparr>cache := (replicate tableSize 0)[30 := 0xFF, 31 := 0x03]\<rparr>"]
  by (simp add: regGoalPosition_def freshServo_def tableSize_def)

subsection \<open>The status return level\<close>

text \<open>
  C6, as the claim states it, fails on "no transport call": \<^verbatim>\<open>SetStatusReturnLevel\<close>
  begins with \<^verbatim>\<open>logMethod\<close>, which calls \<^verbatim>\<open>Log\<close> on the network before the value is
  checked. With the value 3 on a network that has received nothing, the call fails with
  the invalid-level error and the network has received one call, the log line.
\<close>

theorem SetStatusReturnLevel_logs_before_check:
  "calls (Network (freshServo okNet)) = [] \<and>
   fst (SetStatusReturnLevel 3 (freshServo okNet)) = Err (InvalidStatusReturnLevel 3) \<and>
   calls (Network (snd (SetStatusReturnLevel 3 (freshServo okNet))))
     = [LogCall 1 ''SetStatusReturnLevel(%d)'' [IntArg 3]]"
  by (simp add: SetStatusReturnLevel_def logMethod_def Log_def Let_def freshServo_def okNet_def)

text \<open>
  C6, amended. Every call of \<^verbatim>\<open>SetStatusReturnLevel\<close> first passes one log line to the
  network. With a value outside 0, 1, 2 it then fails with the invalid-level error: the
  log line is the only call the network receives (no read and no write), and the shadow
  is unchanged. With a value in 0, 1, 2 the network receives, after the log line,
  exactly one write, whose acknowledgement flag is (value = 2) whatever the shadow is;
  the function returns without an error exactly when the network accepts that write, and
  then the shadow is the new value; otherwise the shadow is unchanged.
\<close>

theorem SetStatusReturnLevel_calls:
  "((v < 0 \<or> v > 2) \<longrightarrow>
      fst (SetStatusReturnLevel v servo) = Err (InvalidStatusReturnLevel v) \<and>
      calls (Network (snd (SetStatusReturnLevel v servo)))
        = calls (Network servo) @ [LogCall (Ident servo) ''SetStatusReturnLevel(%d)'' [IntArg v]] \<and>
      statusReturnLevel (snd (SetStatusReturnLevel v servo)) = statusReturnLevel servo) \<and>
   (0 \<le> v \<and> v \<le> 2 \<longrightarrow>
      calls (Network (snd (SetStatusReturnLevel v servo)))
        = calls (Network servo)
            @ [LogCall (Ident servo) ''SetStatusReturnLevel(%d)'' [IntArg v],
               WriteDataCall (Ident servo) (v = 2) [addrStatusReturnLevel, low v]] \<and>
      (fst (SetStatusReturnLevel v servo) = Ok ()) =
        (writeReply (Network servo)
           (calls (Network servo) @ [LogCall (Ident servo) ''SetStatusReturnLevel(%d)'' [IntArg v]])
           (Ident servo) (v = 2) [addrStatusReturnLevel, low v] = None) \<and>
      (fst (SetStatusReturnLevel v servo) = Ok () \<longrightarrow>
         statusReturnLevel (snd (SetStatusReturnLevel v servo)) = v) \<and>
      (fst (SetStatusReturnLevel v servo) \<noteq> Ok () \<longrightarrow>
         statusReturnLevel (snd (SetStatusReturnLevel v servo)) = statusReturnLevel servo))"
  by (auto simp: SetStatusReturnLevel_def logMethod_def Log_def WriteData_def Let_def
      split: option.splits prod.splits)

theorem SetStatusReturnLevel_calls_witness:
  "fst (SetStatusReturnLevel (-1) (freshServo okNet)) = Err (InvalidStatusReturnLevel (-1)) \<and>
   calls (Network (snd (SetStatusReturnLevel (-1) (freshServo okNet))))
     = [LogCall 1 ''SetStatusReturnLevel(%d)'' [IntArg (-1)]] \<and>
   statusReturnLevel (snd (SetStatusReturnLevel (-1) (freshServo okNet))) = 2 \<and>
   calls (Network (snd (SetStatusReturnLevel 0 (freshServo okNet))))
     = [LogCall 1 ''SetStatusReturnLevel(%d)'' [IntArg 0], WriteDataCall 1 False [0x10, 0]] \<and>
   fst (SetStatusReturnLevel 0 (freshServo okNet)) = Ok () \<and>
   statusReturnLevel (snd (SetStatusReturnLevel 0 (freshServo okNet))) = 0 \<and>
   calls (Network (snd (SetStatusReturnLevel 1 (freshServo failNet))))
     = [LogCall 1 ''SetStatusReturnLevel(%d)'' [IntArg 1], WriteDataCall 1 False [0x10, 1]] \<and>
   fst (SetStatusReturnLevel 1 (freshServo failNet)) \<noteq> Ok () \<and>
   statusReturnLevel (snd (SetStatusReturnLevel 1 (freshServo failNet))) = 2"
  using SetStatusReturnLevel_calls [of "-1" "freshServo okNet"]
        SetStatusReturnLevel_calls [of 0 "freshServo okNet"]
        SetStatusReturnLevel_calls [of 1 "freshServo failNet"]
  by (simp add: freshServo_def okNet_def failNet_def addrStatusReturnLevel_def low_def)

subsection \<open>Construction\<close>

text \<open>
  C10. \<^verbatim>\<open>NewServo\<close> returns a servo whose status return level is 2 and whose zero angle
  is 150, whatever the network answers. When the first read of the table fails, or
  returns a number of bytes other than 50, \<^verbatim>\<open>updateCache\<close> returns an error, which
  \<^verbatim>\<open>NewServo\<close> drops (it returns the servo alone), and the cache is all zeros.
\<close>

theorem NewServo_ignores_refresh_error:
  "statusReturnLevel (NewServo net ident) = 2 \<and>
   zeroAngle (NewServo net ident) = floatConst 150 \<and>
   ((\<forall>b. readReply net (calls net) ident 0 (int tableSize) = Inr b \<longrightarrow> length b \<noteq> tableSize) \<longrightarrow>
      (\<exists>e. fst (updateCache \<lparr>Network = net, Ident = ident, zeroAngle = floatConst 150,
                              cache = replicate tableSize 0, statusReturnLevel = 2\<rparr>) = Err e) \<and>
      cache (NewServo net ident) = replicate tableSize 0)"
  by (auto simp: NewServo_def updateCache_def ReadData_def split: sum.splits prod.splits)

theorem NewServo_ignores_refresh_error_witness:
  "statusReturnLevel (NewServo failNet 1) = 2 \<and>
   zeroAngle (NewServo failNet 1) = floatConst 150 \<and>
   cache (NewServo failNet 1) = replicate tableSize 0 \<and>
   cache (NewServo shortNet 1) = replicate tableSize 0"
  using NewServo_ignores_refresh_error [of failNet 1]
        NewServo_ignores_refresh_error [of shortNet 1]
  by (simp add: failNet_def shortNet_def tableSize_def)

subsection \<open>The float64 model\<close>

text \<open>
  \<open>bits m\<close> is the length of \<open>m\<close> in binary, so rounding a mantissa of at most 53 bits
  changes nothing, and the sum of two binary64 numbers is a binary64 number again.
\<close>

lemma bits_le: "m < 2 ^ n \<Longrightarrow> bits m \<le> n"
proof (induction n arbitrary: m)
  case 0
  then show ?case by (simp add: bits.simps)
next
  case (Suc n)
  then have "m div 2 < 2 ^ n" by simp
  with Suc.IH have "bits (m div 2) \<le> n" by blast
  then show ?case by (subst bits.simps) simp
qed

lemma roundFloat_exact: "m < 2 ^ 53 \<Longrightarrow> roundFloat s m 0 = Finite s m 0"
  using bits_le [of m 53] by (simp add: roundFloat_def Let_def)

lemma bits_gt: "m < 2 ^ bits m"
proof (induction m rule: bits.induct)
  case (1 n)
  show ?case
  proof (cases "n = 0")
    case True
    then show ?thesis by simp
  next
    case False
    with 1 have "n div 2 < 2 ^ bits (n div 2)" by simp
    then have "n < 2 * 2 ^ bits (n div 2)" by linarith
    with False show ?thesis by (subst bits.simps) simp
  qed
qed

lemma bits_lower: "0 < m \<Longrightarrow> 2 ^ (bits m - 1) \<le> m"
proof (induction m rule: bits.induct)
  case (1 n)
  show ?case
  proof (cases "n div 2 = 0")
    case True
    with "1.prems" have "n = 1" by (simp add: div_eq_0_iff)
    then show ?thesis by (simp add: bits.simps)
  next
    case False
    with 1 have "2 ^ (bits (n div 2) - 1) \<le> n div 2" by simp
    moreover have "bits (n div 2) > 0" using False by (subst bits.simps) simp
    ultimately have "2 ^ bits (n div 2) \<le> 2 * (n div 2)"
      by (cases "bits (n div 2)") simp_all
    then have "2 ^ bits (n div 2) \<le> n" by linarith
    with "1.prems" show ?thesis by (subst bits.simps) simp
  qed
qed

lemma bits_eq: "2 ^ n \<le> m \<Longrightarrow> m < 2 ^ Suc n \<Longrightarrow> bits m = Suc n"
proof -
  assume lo: "2 ^ n \<le> m" and hi: "m < 2 ^ Suc n"
  have "bits m \<le> Suc n" using hi by (rule bits_le)
  moreover have "\<not> bits m \<le> n"
  proof
    assume "bits m \<le> n"
    then have "(2::nat) ^ bits m \<le> 2 ^ n" by (simp add: power_increasing)
    with bits_gt [of m] lo show False by linarith
  qed
  ultimately show ?thesis by linarith
qed

lemma roundFloat_isFloat64:
  assumes lo: "-1074 \<le> e" and hi: "e \<le> 971"
  shows "isFloat64 (roundFloat s m e)"
proof (cases "bits m \<le> 53")
  case True
  then have k: "bits m - 53 = 0" by simp
  have "m < 2 ^ bits m" by (rule bits_gt)
  also have "(2::nat) ^ bits m \<le> 2 ^ 53" using True by (rule power_increasing) simp
  finally have m: "m < 2 ^ 53" .
  show ?thesis
    using m lo hi by (simp add: roundFloat_def k Let_def isFloat64_def)
next
  case False
  define k where "k = bits m - 53"
  define q where "q = m div 2 ^ k"
  have kpos: "0 < k" and bm: "bits m = 53 + k" using False by (simp_all add: k_def)
  have "0 < m" using False by (cases "m = 0") (simp_all add: bits.simps)
  then have "2 ^ (52 + k) \<le> m" using bits_lower [of m] by (simp add: bm)
  then have qlo: "2 ^ 52 \<le> q"
    by (simp add: q_def less_eq_div_iff_mult_less_eq power_add)
  have "m < 2 ^ (53 + k)" using bits_gt [of m] by (simp add: bm)
  then have qhi: "q < 2 ^ 53"
    by (simp add: q_def less_mult_imp_div_less power_add)
  define q' where
    "q' = (if 2 * (m mod 2 ^ k) > 2 ^ k \<or> (2 * (m mod 2 ^ k) = 2 ^ k \<and> odd q)
           then q + 1 else q)"
  define m' where "m' = (if q' = 2 ^ 53 then 2 ^ 52 else q')"
  define e' where "e' = (if q' = 2 ^ 53 then e + int k + 1 else e + int k)"
  have q': "2 ^ 52 \<le> q'" "q' \<le> 2 ^ 53" using qlo qhi by (simp_all add: q'_def)
  have m': "2 ^ 52 \<le> m'" "m' < 2 ^ Suc 52" using q' by (auto simp: m'_def)
  then have bits_m': "bits m' = 53" using bits_eq [of 52 m'] by simp
  have e'lo: "-1074 \<le> e'" using lo by (simp add: e'_def)
  have rf: "roundFloat s m e = (if 53 + e' > 1024 then Infinity s else Finite s m' e')"
    unfolding roundFloat_def Let_def
    by (simp only: k_def [symmetric] q_def [symmetric] q'_def [symmetric] m'_def [symmetric]
          e'_def [symmetric] bits_m') simp
  show ?thesis
    using m' e'lo by (simp add: rf isFloat64_def)
qed

lemma fadd_isFloat64: "isFloat64 x \<Longrightarrow> isFloat64 y \<Longrightarrow> isFloat64 (fadd x y)"
proof (cases x; cases y)
  fix s m e t n f
  assume wf: "isFloat64 x" "isFloat64 y" and x: "x = Finite s m e" and y: "y = Finite t n f"
  then have g: "-1074 \<le> min e f" "min e f \<le> 971"
    by (simp_all add: isFloat64_def min_le_iff_disj)
  then have "isFloat64 (roundFloat b k (min e f))" for b k
    by (rule roundFloat_isFloat64)
  moreover have "isFloat64 (Finite (s \<and> t) 0 (min e f))"
    using g by (simp add: isFloat64_def)
  ultimately show "isFloat64 (fadd x y)"
    by (simp add: x y Let_def)
qed (simp_all add: isFloat64_def)

text \<open>Ties go to the even mantissa: \<open>2\<^sup>5\<^sup>3 + 1\<close> is \<open>2\<^sup>5\<^sup>3\<close>, and \<open>2\<^sup>5\<^sup>3 + 3\<close> is \<open>2\<^sup>5\<^sup>3 + 4\<close>.\<close>

lemma bits_above_2_53: "bits 9007199254740993 = 54" "bits 9007199254740995 = 54"
  "bits 4503599627370496 = 53" "bits 4503599627370498 = 53"
  by (simp_all add: bits.simps)

lemma fadd_tie_down: "fadd (Finite False (2 ^ 52) 1) (floatConst 1) = Finite False (2 ^ 52) 1"
  by (simp add: floatConst_def signedMant_def roundFloat_def bits_above_2_53 Let_def)

lemma fadd_tie_up:
  "fadd (Finite False (2 ^ 52) 1) (floatConst 3) = Finite False (2 ^ 52 + 2) 1"
  by (simp add: floatConst_def signedMant_def roundFloat_def bits_above_2_53 Let_def)

subsection \<open>Angles\<close>

text \<open>A value that neither comparison sends into the recursion is returned as it is.\<close>

lemma normalizeAngle_fixed:
  "\<not> fless (floatConst 180) r \<Longrightarrow> \<not> fless r (floatConst (-180)) \<Longrightarrow>
   normalizeAngle r = Some r"
  by (subst normalizeAngle.simps) simp

lemma normalizeAngle_result:
  assumes "normalizeAngle d = Some r"
  shows "\<not> fless (floatConst 180) r \<and> \<not> fless r (floatConst (-180))"
  by (rule normalizeAngle.raw_induct
        [where P = "\<lambda>d r. \<not> fless (floatConst 180) r \<and> \<not> fless r (floatConst (-180))",
         OF _ assms])
     (simp split: if_splits)

lemma not_fless_fle: "x \<noteq> NaN \<Longrightarrow> y \<noteq> NaN \<Longrightarrow> \<not> fless x y \<Longrightarrow> fle y x"
proof (cases x; cases y)
  fix s m e t n f
  assume "\<not> fless x y" and "x = Finite s m e" and "y = Finite t n f"
  then show "fle y x"
    by (simp add: Let_def min.commute [of f e])
qed auto

lemma bits_180: "bits 180 = 8"
  by (simp add: bits.simps)

lemma fsub_540: "fsub (floatConst 540) (floatConst 360) = floatConst 180"
  by (simp add: fsub_def floatConst_def signedMant_def roundFloat_def bits_180 Let_def)

lemma normalizeAngle_180: "normalizeAngle (floatConst 180) = Some (floatConst 180)"
  by (simp add: normalizeAngle_fixed floatConst_def signedMant_def)

lemma normalizeAngle_540: "normalizeAngle (floatConst 540) = Some (floatConst 180)"
  using normalizeAngle_180
  by (subst normalizeAngle.simps) (simp add: fsub_540, simp add: floatConst_def signedMant_def)

text \<open>
  C4, as the claim states it, fails at 180: \<^verbatim>\<open>normalizeAngle(180)\<close> is 180, and 180 is not
  below 180, so the result is outside the half-open interval.
\<close>

theorem normalizeAngle_keeps_180:
  "normalizeAngle (floatConst 180) = Some (floatConst 180) \<and>
   \<not> fless (floatConst 180) (floatConst 180)"
  by (simp add: normalizeAngle_fixed floatConst_def signedMant_def)

text \<open>
  C4, amended. Whenever \<^verbatim>\<open>normalizeAngle(d)\<close> returns a value \<open>r\<close>, applying
  \<^verbatim>\<open>normalizeAngle\<close> to \<open>r\<close> returns \<open>r\<close> again, and \<open>r\<close> lies in the closed interval from
  -180 to 180 (both ends included), unless \<open>r\<close> is not a number.
\<close>

theorem normalizeAngle_idempotent_closed_range:
  assumes "normalizeAngle d = Some r"
  shows "normalizeAngle r = Some r \<and>
         (r = NaN \<or> (fle (floatConst (-180)) r \<and> fle r (floatConst 180)))"
proof -
  have in_range: "\<not> fless (floatConst 180) r" "\<not> fless r (floatConst (-180))"
    using normalizeAngle_result [OF assms] by simp_all
  have "normalizeAngle r = Some r"
    using in_range by (rule normalizeAngle_fixed)
  moreover have "fle (floatConst (-180)) r \<and> fle r (floatConst 180)" if "r \<noteq> NaN"
    using that in_range not_fless_fle [of "floatConst 180" r]
      not_fless_fle [of r "floatConst (-180)"]
    by (simp add: floatConst_def)
  ultimately show ?thesis by blast
qed

theorem normalizeAngle_idempotent_closed_range_witness:
  "normalizeAngle (floatConst 540) = Some (floatConst 180) \<and>
   normalizeAngle (floatConst 180) = Some (floatConst 180) \<and>
   fle (floatConst (-180)) (floatConst 180) \<and> fle (floatConst 180) (floatConst 180)"
  using normalizeAngle_540 normalizeAngle_idempotent_closed_range [OF normalizeAngle_540]
  by (simp add: floatConst_def)

text \<open>
  On integers below \<open>2\<^sup>5\<^sup>3\<close> in magnitude the additions are exact, each fold brings the
  value closer to zero, and \<^verbatim>\<open>normalizeAngle\<close> returns.
\<close>

lemma fadd_int:
  assumes "\<bar>i + j\<bar> < 2 ^ 53"
  shows "fadd (floatConst i) (floatConst j) = floatConst (i + j)"
proof -
  have x: "signedMant (i < 0) (nat \<bar>i\<bar>) + signedMant (j < 0) (nat \<bar>j\<bar>) = i + j"
    by (simp add: signedMant_def)
  have "nat \<bar>i + j\<bar> < 2 ^ 53" using assms by simp
  then have "roundFloat (i + j < 0) (nat \<bar>i + j\<bar>) 0 = Finite (i + j < 0) (nat \<bar>i + j\<bar>) 0"
    by (rule roundFloat_exact)
  then show ?thesis
    by (auto simp: floatConst_def Let_def x)
qed

lemma fless_int: "fless (floatConst i) (floatConst j) = (i < j)"
  by (auto simp: floatConst_def Let_def signedMant_def)

lemma fneg_360: "fneg (floatConst 360) = floatConst (-360)"
  by (simp add: floatConst_def)

lemma normalizeAngle_int_returns:
  "\<bar>i\<bar> < 2 ^ 53 \<Longrightarrow>
   \<exists>j. -180 \<le> j \<and> j \<le> 180 \<and> normalizeAngle (floatConst i) = Some (floatConst j)"
proof (induction "nat \<bar>i\<bar>" arbitrary: i rule: less_induct)
  case less
  consider "i > 180" | "i < -180" | "-180 \<le> i \<and> i \<le> 180" by linarith
  then show ?case
  proof cases
    case 1
    have "fsub (floatConst i) (floatConst 360) = floatConst (i - 360)"
      using fadd_int [of i "-360"] less.prems 1 by (simp add: fsub_def fneg_360)
    moreover have "\<exists>j. -180 \<le> j \<and> j \<le> 180 \<and>
        normalizeAngle (floatConst (i - 360)) = Some (floatConst j)"
      using less.hyps [of "i - 360"] less.prems 1 by simp
    ultimately show ?thesis
      using 1 by (subst normalizeAngle.simps) (simp add: fless_int)
  next
    case 2
    have "fadd (floatConst i) (floatConst 360) = floatConst (i + 360)"
      using fadd_int [of i 360] less.prems 2 by simp
    moreover have "\<exists>j. -180 \<le> j \<and> j \<le> 180 \<and>
        normalizeAngle (floatConst (i + 360)) = Some (floatConst j)"
      using less.hyps [of "i + 360"] less.prems 2 by simp
    ultimately show ?thesis
      using 2 by (subst normalizeAngle.simps) (simp add: fless_int)
  next
    case 3
    then have "normalizeAngle (floatConst i) = Some (floatConst i)"
      by (subst normalizeAngle.simps) (simp add: fless_int)
    with 3 show ?thesis by blast
  qed
qed

text \<open>At \<open>10\<^sup>1\<^sup>9\<close> subtracting 360 changes nothing: the difference rounds back.\<close>

lemma bits_huge: "bits 9999999999999999640 = 64" "bits 4882812500000000 = 53"
  by (simp_all add: bits.simps)

lemma fsub_huge: "fsub hugeAngle (floatConst 360) = hugeAngle"
  by (simp add: hugeAngle_def fsub_def floatConst_def signedMant_def roundFloat_def bits_huge
        Let_def)

lemma fless_huge: "fless (floatConst 180) hugeAngle"
  by (simp add: hugeAngle_def floatConst_def signedMant_def)

lemma isFloat64_huge: "isFloat64 hugeAngle"
  by (simp add: isFloat64_def hugeAngle_def)

lemma normalizeAngle_never_from_huge:
  assumes "normalizeAngle d = Some r"
  shows "d \<noteq> hugeAngle"
proof (rule normalizeAngle.raw_induct [where P = "\<lambda>d r. d \<noteq> hugeAngle", OF _ assms])
  fix f :: "float64 \<Rightarrow> float64 option" and d r
  assume IH: "\<And>x y. f x = Some y \<Longrightarrow> x \<noteq> hugeAngle"
    and step: "(if fless (floatConst 180) d then f (fsub d (floatConst 360))
                else if fless d (floatConst (- 180)) then f (fadd d (floatConst 360))
                else Some d) = Some r"
  show "d \<noteq> hugeAngle"
  proof
    assume "d = hugeAngle"
    with step have "f hugeAngle = Some r"
      by (simp add: fsub_huge fless_huge)
    with IH show False by blast
  qed
qed

text \<open>
  C5. The claim: \<^verbatim>\<open>normalizeAngle\<close> returns for every finite input after a bounded number
  of folds. At the finite input \<open>10\<^sup>1\<^sup>9\<close> it does not: the value is above 180, the
  subtraction of 360 gives \<open>10\<^sup>1\<^sup>9\<close> again, and the function calls itself on the same
  argument for ever.
\<close>

theorem normalizeAngle_diverges_at_1e19:
  "isFloat64 hugeAngle \<and>
   fless (floatConst 180) hugeAngle \<and>
   fsub hugeAngle (floatConst 360) = hugeAngle \<and>
   normalizeAngle hugeAngle = None"
  using normalizeAngle_never_from_huge [of hugeAngle] isFloat64_huge fless_huge fsub_huge
  by (cases "normalizeAngle hugeAngle") auto

end
